theory Spec2Isabelle
  imports Main
begin

section \<open>Python values shared by the plugin chain and the formatters\<close>

text \<open>
  A class object is its name together with its direct bases. \<open>issubclass c e\<close> is Python's
  \<open>issubclass(c, e)\<close> for ordinary classes: \<open>e\<close> is \<open>c\<close> itself or reachable from \<open>c\<close>
  through the bases.
\<close>

datatype pyclass = PyClass (cls_name: string) (cls_bases: "pyclass list")

fun ancestors :: "pyclass \<Rightarrow> pyclass list" where
  "ancestors (PyClass n bs) = PyClass n bs # concat (map ancestors bs)"

definition issubclass :: "pyclass \<Rightarrow> pyclass \<Rightarrow> bool" where
  "issubclass c e = (e \<in> set (ancestors c))"

text \<open>
  The values a hook returns: \<open>handle\<close> of the message-dialog plugin returns \<open>None\<close> or \<open>True\<close>,
  the plugins of \<open>exceptionplugin.py\<close> return \<open>True\<close> or \<open>False\<close>, and an overriding \<open>handle\<close>
  or a plain callable may return anything. \<open>truthy\<close> is the test of \<open>if result\<close> and
  \<open>if not ret\<close>.
\<close>

datatype pyval = PyNone | PyBool bool | PyInt int

fun truthy :: "pyval \<Rightarrow> bool" where
  "truthy PyNone = False"
| "truthy (PyBool b) = b"
| "truthy (PyInt i) = (i \<noteq> 0)"

text \<open>A raised exception, by the name of its class.\<close>

datatype exn = Exn string

text \<open>
  The error value: an exception instance with its \<open>args\<close>. A \<open>PyTango.DevFailed\<close> carries
  \<open>DevError\<close> records with \<open>origin\<close>, \<open>reason\<close> and \<open>desc\<close>; any other argument is kept as text.
  A traceback is the list of its frames. \<open>exc_info\<close> is the triple the interpreter hands to an
  excepthook, each component possibly \<open>None\<close>.
\<close>

datatype pyarg = DevError (origin: string) (reason: string) (desc: string) | StrArg string

datatype errvalue = ErrValue (args: "pyarg list")

type_synonym traceback = "string list"

type_synonym exc_info = "pyclass option \<times> errvalue option \<times> traceback option"


section \<open>exceptionplugin.py: the plugin chain\<close>

text \<open>
  What a run leaves behind, in order: \<open>Invoked l\<close> when the callable labelled \<open>l\<close> is called,
  \<open>Excepthook\<close> when \<open>sys.__excepthook__\<close> prints the raw trace to the standard error stream,
  \<open>Logged lv\<close> when the logging plugin logs at level \<open>lv\<close>, \<open>DialogShown\<close> when the message
  dialog is shown.
\<close>

datatype event = Invoked string | Excepthook | Logged nat | DialogShown

text \<open>
  A plugin object: its label (the object's identity), its \<open>_target\<close>, and what its class adds.
  \<open>SubclassPlugin\<close> is a subclass of \<open>BaseExceptionPlugin\<close> that overrides \<open>handle\<close> ("Overwrite
  as necessary"); with no target it also stands for a plain callable, since \<open>__call__\<close> then
  returns what \<open>handle\<close> returns. A body yields the events of its run and either the exception
  it raises (\<open>Inl\<close>) or the value it returns (\<open>Inr\<close>).
\<close>

datatype plugin =
    BaseExceptionPlugin string "plugin option"
  | MultiplexExceptionPlugin string "plugin list" "plugin option"
  | LogExceptionPlugin string "plugin option" nat
  | SubclassPlugin string "exc_info \<Rightarrow> event list \<times> (exn + pyval)" "plugin option"

fun label :: "plugin \<Rightarrow> string" where
  "label (BaseExceptionPlugin l t) = l"
| "label (MultiplexExceptionPlugin l ps t) = l"
| "label (LogExceptionPlugin l t lv) = l"
| "label (SubclassPlugin l h t) = l"

fun target :: "plugin \<Rightarrow> plugin option" where
  "target (BaseExceptionPlugin l t) = t"
| "target (MultiplexExceptionPlugin l ps t) = t"
| "target (LogExceptionPlugin l t lv) = t"
| "target (SubclassPlugin l h t) = t"

text \<open>
  \<open>call\<close> is \<open>BaseExceptionPlugin.__call__\<close>, inherited by every plugin class; \<open>handle\<close> is the
  \<open>handle\<close> of each class; \<open>handle_loop\<close> is the \<open>for target in self\<close> loop of
  \<open>MultiplexExceptionPlugin.handle\<close>. None of them has a \<open>try\<close>: an exception leaves the
  function at the point where it is raised.
\<close>

function call :: "plugin \<Rightarrow> exc_info \<Rightarrow> event list \<times> (exn + pyval)"
  and handle :: "plugin \<Rightarrow> exc_info \<Rightarrow> event list \<times> (exn + pyval)"
  and handle_loop :: "plugin list \<Rightarrow> exc_info \<Rightarrow> event list \<times> (exn + pyval)"
where
  "call p e =
     (case handle p e of
        (evs, Inl x) \<Rightarrow> (Invoked (label p) # evs, Inl x)
      | (evs, Inr result) \<Rightarrow>
          (if truthy result then
             (case target p of
                Some t \<Rightarrow> (case call t e of (evs', r) \<Rightarrow> (Invoked (label p) # evs @ evs', r))
              | None \<Rightarrow> (Invoked (label p) # evs, Inr result))
           else (Invoked (label p) # evs, Inr result)))"
| "handle (BaseExceptionPlugin l t) e = ([Excepthook], Inr (PyBool True))"
| "handle (MultiplexExceptionPlugin l ps t) e = handle_loop ps e"
| "handle (LogExceptionPlugin l t lv) e = ([Logged lv], Inr (PyBool True))"
| "handle (SubclassPlugin l h t) e = h e"
| "handle_loop [] e = ([], Inr (PyBool True))"
| "handle_loop (p # ps) e =
     (case call p e of
        (evs, Inl x) \<Rightarrow> (evs, Inl x)
      | (evs, Inr ret) \<Rightarrow>
          (if \<not> truthy ret then (evs, Inr (PyBool False))
           else (case handle_loop ps e of (evs', r) \<Rightarrow> (evs @ evs', r))))"
  by pat_completeness auto
termination
  apply (relation "measure (\<lambda>x. case x of
      Inl (p, e) \<Rightarrow> 2 * size p + 1
    | Inr (Inl (p, e)) \<Rightarrow> 2 * size p
    | Inr (Inr (ps, e)) \<Rightarrow> 2 * size_list size ps + 1)")
  apply auto
  subgoal for p t by (cases p) auto
  done

declare call.simps [simp del]

text \<open>
  How one child's call ended, and the children a multiplex reaches: those that return a truthy
  value, up to and including the first one that does not.
\<close>

definition returns_truthy :: "exc_info \<Rightarrow> plugin \<Rightarrow> bool" where
  "returns_truthy e p = (case snd (call p e) of Inl x \<Rightarrow> False | Inr v \<Rightarrow> truthy v)"

definition returns_falsy :: "exc_info \<Rightarrow> plugin \<Rightarrow> bool" where
  "returns_falsy e p = (case snd (call p e) of Inl x \<Rightarrow> False | Inr v \<Rightarrow> \<not> truthy v)"

definition raises :: "exc_info \<Rightarrow> plugin \<Rightarrow> bool" where
  "raises e p = (case snd (call p e) of Inl x \<Rightarrow> True | Inr v \<Rightarrow> False)"

definition reached :: "exc_info \<Rightarrow> plugin list \<Rightarrow> plugin list" where
  "reached e ps = takeWhile (returns_truthy e) ps @ take 1 (dropWhile (returns_truthy e) ps)"


section \<open>exceptionwidget.py: the error formatters\<close>

text \<open>
  The formatters call into libraries outside the repository; these are parameters.
  \<open>format_exception_only\<close> and \<open>format_exception\<close> are the functions of the \<open>traceback\<close>
  module: they return a list of lines, or raise. \<open>pygments\<close> is \<open>None\<close> when
  \<open>import pygments\<close> failed at module load; otherwise it gives the style sheet of
  \<open>HtmlFormatter().get_style_defs()\<close> and \<open>highlight\<close> with the traceback lexer.
\<close>

record highlighter =
  get_style_defs :: string
  highlight :: "string \<Rightarrow> string"

record pylib =
  format_exception_only :: "pyclass option \<Rightarrow> errvalue option \<Rightarrow> exn + string list"
  format_exception ::
    "pyclass option \<Rightarrow> errvalue option \<Rightarrow> traceback option \<Rightarrow> exn + string list"
  pygments :: "highlighter option"

text \<open>
  The formatter classes. \<open>FormatterClass\<close> is a formatter class an application supplies; its
  methods are not part of the repository.
\<close>

datatype formatter = BaseErrorFormatterPlugin | TangoErrorFormatterPlugin | FormatterClass string

definition dquote :: string where
  "dquote = [CHR 0x22]"

text \<open>\<open>html_orig.format(style=style)\<close>, the head shared by the origin and detail pages.\<close>

definition html_orig :: "string \<Rightarrow> string" where
  "html_orig style =
     ''<html><head><style type='' @ dquote @ ''text/css'' @ dquote @ ''>'' @ style
       @ ''</style></head><body>''"

definition style_of :: "pylib \<Rightarrow> string" where
  "style_of lib = (case pygments lib of None \<Rightarrow> [] | Some hl \<Rightarrow> get_style_defs hl)"

definition pre_block :: "string \<Rightarrow> string" where
  "pre_block s = ''<pre>'' @ s @ ''</pre>''"

fun toTitle :: "formatter \<Rightarrow> exc_info \<Rightarrow> exn + string" where
  "toTitle BaseErrorFormatterPlugin (err_type, err_value, err_traceback) =
     (case err_type of
        None \<Rightarrow> Inr ''Unhandled Error''
      | Some c \<Rightarrow> Inr (''Unhandled Error ('' @ cls_name c @ '')''))"
| "toTitle TangoErrorFormatterPlugin (err_type, err_value, err_traceback) = Inr ''Tango Error''"

text \<open>
  \<open>TangoErrorFormatterPlugin.toErrorHtml\<close> is \<open>err_value.args[0].desc\<close>: an \<open>AttributeError\<close> on
  \<open>None\<close> and on an argument without \<open>desc\<close>, an \<open>IndexError\<close> on empty \<open>args\<close>.
\<close>

fun toErrorHtml :: "pylib \<Rightarrow> formatter \<Rightarrow> exc_info \<Rightarrow> exn + string" where
  "toErrorHtml lib BaseErrorFormatterPlugin (err_type, err_value, err_traceback) =
     (case format_exception_only lib err_type err_value of
        Inl x \<Rightarrow> Inl x
      | Inr ls \<Rightarrow> Inr (concat ls))"
| "toErrorHtml lib TangoErrorFormatterPlugin (err_type, err_value, err_traceback) =
     (case err_value of
        None \<Rightarrow> Inl (Exn ''AttributeError'')
      | Some v \<Rightarrow>
          (case args v of
             [] \<Rightarrow> Inl (Exn ''IndexError'')
           | DevError og rs ds # rest \<Rightarrow> Inr ds
           | StrArg s # rest \<Rightarrow> Inl (Exn ''AttributeError'')))"

text \<open>
  The loop of \<open>TangoErrorFormatterPlugin.toDetailedErrorHtml\<close> over \<open>err_value.args\<close>, \<open>html\<close>
  being the page built so far.
\<close>

fun tango_blocks :: "pylib \<Rightarrow> pyarg list \<Rightarrow> string \<Rightarrow> exn + string" where
  "tango_blocks lib [] html = Inr html"
| "tango_blocks lib (StrArg s # des) html = Inl (Exn ''AttributeError'')"
| "tango_blocks lib (DevError og rs ds # des) html =
     (let og' = (case pygments lib of
                   Some hl \<Rightarrow> if take 5 rs = ''PyDs_'' then highlight hl og else pre_block og
                 | None \<Rightarrow> pre_block og)
      in tango_blocks lib des (html @ pre_block (rs @ '': '' @ ds) @ og' @ ''<hr>''))"

fun toDetailedErrorHtml :: "pylib \<Rightarrow> formatter \<Rightarrow> exc_info \<Rightarrow> exn + string" where
  "toDetailedErrorHtml lib BaseErrorFormatterPlugin (err_type, err_value, err_traceback) =
     (case toErrorHtml lib BaseErrorFormatterPlugin (err_type, err_value, err_traceback) of
        Inl x \<Rightarrow> Inl x
      | Inr error \<Rightarrow> Inr (''<html><body><pre>'' @ error @ ''</pre></body></html>''))"
| "toDetailedErrorHtml lib TangoErrorFormatterPlugin (err_type, err_value, err_traceback) =
     (case err_value of
        None \<Rightarrow> Inl (Exn ''AttributeError'')
      | Some v \<Rightarrow>
          (case tango_blocks lib (args v) (html_orig (style_of lib)) of
             Inl x \<Rightarrow> Inl x
           | Inr html \<Rightarrow> Inr (html @ ''</body></html>'')))"

text \<open>
  \<open>toOriginHtml\<close>: the two classes have the same body up to the order of two independent
  steps.
\<close>

definition origin_page :: "pylib \<Rightarrow> exc_info \<Rightarrow> exn + string" where
  "origin_page lib e =
     (case e of (err_type, err_value, err_traceback) \<Rightarrow>
        (case format_exception lib err_type err_value err_traceback of
           Inl x \<Rightarrow> Inl x
         | Inr ls \<Rightarrow>
             Inr (html_orig (style_of lib)
                  @ (case pygments lib of
                       None \<Rightarrow> pre_block (concat ls)
                     | Some hl \<Rightarrow> highlight hl (concat ls))
                  @ ''</body></html>'')))"

fun toOriginHtml :: "pylib \<Rightarrow> formatter \<Rightarrow> exc_info \<Rightarrow> exn + string" where
  "toOriginHtml lib BaseErrorFormatterPlugin e = origin_page lib e"
| "toOriginHtml lib TangoErrorFormatterPlugin e = origin_page lib e"

text \<open>
  \<open>translateError\<close>, defined in the base class and inherited: the four producers in the order
  of the tuple, the first exception ending the call.
\<close>

definition translateError ::
  "pylib \<Rightarrow> formatter \<Rightarrow> exc_info \<Rightarrow> exn + (string \<times> string \<times> string \<times> string)" where
  "translateError lib f e =
     (case toTitle f e of
        Inl x \<Rightarrow> Inl x
      | Inr title \<Rightarrow>
     (case toErrorHtml lib f e of
        Inl x \<Rightarrow> Inl x
      | Inr error \<Rightarrow>
     (case toDetailedErrorHtml lib f e of
        Inl x \<Rightarrow> Inl x
      | Inr detailed \<Rightarrow>
     (case toOriginHtml lib f e of
        Inl x \<Rightarrow> Inl x
      | Inr orig \<Rightarrow> Inr (title, error, detailed, orig)))))"


section \<open>exceptionwidget.py: the formatter registry of ErrorWidget\<close>

text \<open>
  A dict as the list of its items. The order of the list stands for the order in which the
  dict iterates, which the interpreter fixes: the hash order of the keys before Python 3.6,
  the order of insertion from then on. The list is kept in the order of insertion (assigning
  to a key that is present replaces its value in place, assigning to a new key appends), and
  no statement below depends on that choice: every dict that \<open>findErrorFormatter\<close> scans for
  \<open>ErrorWidget\<close> holds at most one item.
\<close>

type_synonym formatters = "(pyclass \<times> formatter) list"

fun dict_setitem :: "formatters \<Rightarrow> pyclass \<Rightarrow> formatter \<Rightarrow> formatters" where
  "dict_setitem [] k v = [(k, v)]"
| "dict_setitem ((k', v') # d) k v =
     (if k' = k then (k, v) # d else (k', v') # dict_setitem d k v)"

text \<open>
  \<open>getErrorFormatters\<close> builds a new dict at every call. Its parameter is the outcome of
  \<open>import PyTango\<close>: \<open>None\<close> for an \<open>ImportError\<close>, otherwise the class \<open>PyTango.DevFailed\<close>.
\<close>

definition getErrorFormatters :: "pyclass option \<Rightarrow> formatters" where
  "getErrorFormatters pytango =
     (case pytango of
        None \<Rightarrow> []
      | Some DevFailed \<Rightarrow> dict_setitem [] DevFailed TangoErrorFormatterPlugin)"

text \<open>
  \<open>registerErrorHandler\<close> assigns into the dict that its own call of \<open>getErrorFormatters\<close>
  returns. The value here is that dict after the assignment; the method returns \<open>None\<close> and
  stores the dict nowhere.
\<close>

definition registerErrorHandler :: "pyclass option \<Rightarrow> pyclass \<Rightarrow> formatter \<Rightarrow> formatters" where
  "registerErrorHandler pytango err_type err_handler =
     dict_setitem (getErrorFormatters pytango) err_type err_handler"

text \<open>
  \<open>findErrorFormatter\<close>: the loop over the items of the dict that \<open>klass.getErrorFormatters()\<close>
  returned, which is the first argument. \<open>issubclass\<close> raises a \<open>TypeError\<close> when \<open>err_type\<close> is
  \<open>None\<close>.
\<close>

fun findErrorFormatter :: "formatters \<Rightarrow> pyclass option \<Rightarrow> exn + formatter" where
  "findErrorFormatter [] err_type = Inr BaseErrorFormatterPlugin"
| "findErrorFormatter ((exc, h_klass) # rest) err_type =
     (case err_type of
        None \<Rightarrow> Inl (Exn ''TypeError'')
      | Some t \<Rightarrow> if issubclass t exc then Inr h_klass else findErrorFormatter rest err_type)"

text \<open>\<open>ErrorWidget.findErrorFormatter\<close>, with \<open>klass\<close> the class \<open>ErrorWidget\<close> itself.\<close>

definition ErrorWidget_findErrorFormatter :: "pyclass option \<Rightarrow> pyclass option \<Rightarrow> exn + formatter" where
  "ErrorWidget_findErrorFormatter pytango err_type =
     findErrorFormatter (getErrorFormatters pytango) err_type"


section \<open>exceptionwidget.py: the message dialog plugin\<close>

text \<open>
  The dialog, as far as the plugin reads and writes it: the state of the check box of its
  panel, the window title, the text label, the two HTML views, and whether it is modal and
  shown.
\<close>

record msgbox =
  checked :: bool
  windowTitle :: string
  textLabel :: string
  detailedHtml :: string
  originHtml :: string
  modal :: bool
  visible :: bool

text \<open>
  The process state around a call: whether a \<open>QApplication\<close> exists, the class attribute
  \<open>MSG_BOX\<close>, what \<open>sys.exc_info()\<close> returns, the outcome of \<open>import PyTango\<close>, the
  libraries, and the panel as \<open>uic.loadUi\<close> builds it from \<open>errorpanel.ui\<close>.
\<close>

record gui =
  qapp :: bool
  MSG_BOX :: "msgbox option"
  exc_in_flight :: exc_info
  pytango :: "pyclass option"
  lib :: pylib
  errorpanel_ui :: msgbox

text \<open>
  \<open>a or b\<close> on the components of an error triple; classes, exception instances and
  tracebacks are taken to be truthy.
\<close>

definition por :: "'a option \<Rightarrow> 'a option \<Rightarrow> 'a option" where
  "por a b = (case a of None \<Rightarrow> b | Some x \<Rightarrow> Some x)"

text \<open>
  \<open>Application()\<close> returns the existing \<open>QApplication\<close> or creates one; it never returns
  \<open>None\<close>.
\<close>

definition Application :: "gui \<Rightarrow> gui \<times> unit option" where
  "Application g = (g\<lparr>qapp := True\<rparr>, Some ())"

definition ErrorWidget_setError :: "gui \<Rightarrow> msgbox \<Rightarrow> exc_info \<Rightarrow> exn + msgbox" where
  "ErrorWidget_setError g box e =
     (case e of (err_type, err_value, err_traceback) \<Rightarrow>
      (case exc_in_flight g of (i0, i1, i2) \<Rightarrow>
       (let exc_info = (por err_type i0, por err_value i1, por err_traceback i2) in
        (case ErrorWidget_findErrorFormatter (pytango g) (fst exc_info) of
           Inl x \<Rightarrow> Inl x
         | Inr formatter_klass \<Rightarrow>
             (case translateError (lib g) formatter_klass exc_info of
                Inl x \<Rightarrow> Inl x
              | Inr (title, error, detailed_error, orig) \<Rightarrow>
                  Inr (box\<lparr>windowTitle := title, textLabel := error,
                           detailedHtml := detailed_error, originHtml := orig\<rparr>))))))"

definition ErrorWidget_init :: "gui \<Rightarrow> exc_info \<Rightarrow> exn + msgbox" where
  "ErrorWidget_init g e =
     (let e' = (if e = (None, None, None) then exc_in_flight g else e);
          box = (errorpanel_ui g)\<lparr>checked := False\<rparr>
      in (case e' of (err_type, err_value, err_traceback) \<Rightarrow>
            if err_value \<noteq> None then ErrorWidget_setError g box e' else Inr box))"

text \<open>
  \<open>ErrorDialog\<close> wraps one panel and copies the panel's window title, here the same field.
\<close>

definition ErrorDialog_init :: "gui \<Rightarrow> exc_info \<Rightarrow> exn + msgbox" where
  "ErrorDialog_init g e =
     ErrorWidget_init g (if e = (None, None, None) then exc_in_flight g else e)"

definition ErrorDialog_setError :: "gui \<Rightarrow> msgbox \<Rightarrow> exc_info \<Rightarrow> exn + msgbox" where
  "ErrorDialog_setError g box e = ErrorWidget_setError g box e"

text \<open>
  \<open>_getMessageBox\<close>: the shared dialog is created at the first call and updated in place
  afterwards; the result is \<open>None\<close> when the check box of its panel is checked.
\<close>

definition getMessageBox :: "gui \<Rightarrow> exc_info \<Rightarrow> exn + (gui \<times> msgbox option)" where
  "getMessageBox g e =
     (case MSG_BOX g of
        None \<Rightarrow>
          (case ErrorDialog_init g e of
             Inl x \<Rightarrow> Inl x
           | Inr b \<Rightarrow>
               (let box = b\<lparr>modal := False\<rparr> in
                Inr (g\<lparr>MSG_BOX := Some box\<rparr>, if checked box then None else Some box)))
      | Some b \<Rightarrow>
          (case ErrorDialog_setError g b e of
             Inl x \<Rightarrow> Inl x
           | Inr box \<Rightarrow>
               Inr (g\<lparr>MSG_BOX := Some box\<rparr>, if checked box then None else Some box)))"

text \<open>
  \<open>__MessageDialogExceptionPlugin.handle\<close>, with the plugin's \<open>_title\<close> and \<open>_msg\<close>. A bare
  \<open>return\<close> returns \<open>None\<close>.
\<close>

definition MessageDialog_handle ::
  "gui \<Rightarrow> string option \<Rightarrow> string option \<Rightarrow> exc_info
     \<Rightarrow> gui \<times> event list \<times> (exn + pyval)" where
  "MessageDialog_handle g title msg e =
     (case Application g of
        (g1, None) \<Rightarrow> (g1, [], Inr PyNone)
      | (g1, Some app) \<Rightarrow>
          (case getMessageBox g1 e of
             Inl x \<Rightarrow> (g1, [], Inl x)
           | Inr (g2, None) \<Rightarrow> (g2, [], Inr PyNone)
           | Inr (g2, Some msgbox) \<Rightarrow>
               (let b1 = (case title of None \<Rightarrow> msgbox | Some s \<Rightarrow> msgbox\<lparr>windowTitle := s\<rparr>);
                    b2 = (case msg of None \<Rightarrow> b1 | Some s \<Rightarrow> b1\<lparr>textLabel := s\<rparr>);
                    b3 = b2\<lparr>visible := True\<rparr>
                in (g2\<lparr>MSG_BOX := Some b3\<rparr>, [DialogShown], Inr (PyBool True)))))"

text \<open>
  The plugin object in the process state \<open>g\<close>: a subclass of \<open>BaseExceptionPlugin\<close> whose
  handle is the one above, called through the inherited \<open>__call__\<close>.
\<close>

definition MessageDialog_body ::
  "gui \<Rightarrow> string option \<Rightarrow> string option \<Rightarrow> exc_info \<Rightarrow> event list \<times> (exn + pyval)" where
  "MessageDialog_body g title msg e = snd (MessageDialog_handle g title msg e)"

definition MessageDialogExceptionPlugin ::
  "gui \<Rightarrow> string \<Rightarrow> plugin option \<Rightarrow> string option \<Rightarrow> string option \<Rightarrow> plugin" where
  "MessageDialogExceptionPlugin g l tgt title msg =
     SubclassPlugin l (MessageDialog_body g title msg) tgt"

text \<open>
  The terminal actions of a run: the dialog shown, and the raw trace printed by
  \<open>sys.__excepthook__\<close>.
\<close>

definition terminal_actions :: "event list \<Rightarrow> event list" where
  "terminal_actions evs = filter (\<lambda>ev. ev = DialogShown \<or> ev = Excepthook) evs"


text \<open>
  Two conditions on the process state before a call of the plugin: \<open>rendered\<close>, creating or
  updating the shared dialog for the error raises nothing; \<open>muted\<close>, the shared dialog
  exists and its check box is checked.
\<close>

definition rendered :: "gui \<Rightarrow> exc_info \<Rightarrow> bool" where
  "rendered g e =
     (case MSG_BOX g of
        None \<Rightarrow> (case ErrorDialog_init g e of Inl x \<Rightarrow> False | Inr b \<Rightarrow> True)
      | Some b \<Rightarrow> (case ErrorDialog_setError g b e of Inl x \<Rightarrow> False | Inr b' \<Rightarrow> True))"

definition muted :: "gui \<Rightarrow> bool" where
  "muted g = (case MSG_BOX g of None \<Rightarrow> False | Some b \<Rightarrow> checked b)"


section \<open>Example objects\<close>

text \<open>A small class hierarchy, an error triple and a few plugins for the concrete instances.\<close>

definition Exception_cls :: pyclass where
  "Exception_cls = PyClass ''Exception'' [PyClass ''BaseException'' [PyClass ''object'' []]]"

definition LookupError_cls :: pyclass where
  "LookupError_cls = PyClass ''LookupError'' [Exception_cls]"

definition KeyError_cls :: pyclass where
  "KeyError_cls = PyClass ''KeyError'' [LookupError_cls]"

definition DevFailed_cls :: pyclass where
  "DevFailed_cls = PyClass ''DevFailed'' [Exception_cls]"

definition sample_error :: exc_info where
  "sample_error =
     (Some KeyError_cls, Some (ErrValue [StrArg ''beam'']), Some [''frame 1'', ''frame 2''])"

definition no_error :: exc_info where
  "no_error = (None, None, None)"

definition faulty_body :: "exc_info \<Rightarrow> event list \<times> (exn + pyval)" where
  "faulty_body e = ([], Inl (Exn ''RuntimeError''))"

definition veto_body :: "exc_info \<Rightarrow> event list \<times> (exn + pyval)" where
  "veto_body e = ([], Inr (PyBool False))"

definition log_child :: plugin where
  "log_child = LogExceptionPlugin ''log'' None 50"

definition veto_child :: plugin where
  "veto_child = SubclassPlugin ''veto'' veto_body None"

definition base_child :: plugin where
  "base_child = BaseExceptionPlugin ''base'' None"

definition faulty_child :: plugin where
  "faulty_child = SubclassPlugin ''faulty'' faulty_body None"

text \<open>
  An instance of the library parameters: no pygments, and a \<open>traceback\<close> module that renders
  the last line from the class name and the arguments, preceded by the frames when there is a
  traceback.
\<close>

fun arg_text :: "pyarg \<Rightarrow> string" where
  "arg_text (StrArg s) = s"
| "arg_text (DevError og rs ds) = ds"

definition final_line :: "pyclass option \<Rightarrow> errvalue option \<Rightarrow> string" where
  "final_line t v =
     (case t of None \<Rightarrow> ''None'' | Some c \<Rightarrow> cls_name c)
     @ (case v of None \<Rightarrow> [] | Some w \<Rightarrow> '': '' @ concat (map arg_text (args w)))
     @ ''\<newline>''"

definition plain_format_exception_only ::
  "pyclass option \<Rightarrow> errvalue option \<Rightarrow> exn + string list" where
  "plain_format_exception_only t v = Inr [final_line t v]"

definition plain_format_exception ::
  "pyclass option \<Rightarrow> errvalue option \<Rightarrow> traceback option \<Rightarrow> exn + string list" where
  "plain_format_exception t v tb =
     Inr ((case tb of
             None \<Rightarrow> []
           | Some frames \<Rightarrow> ''Traceback (most recent call last):\<newline>'' # frames)
          @ [final_line t v])"

definition plain_lib :: pylib where
  "plain_lib = \<lparr> format_exception_only = plain_format_exception_only,
                 format_exception = plain_format_exception,
                 pygments = None \<rparr>"

text \<open>
  Two process states: one in which no dialog exists yet, one in which the shared dialog
  exists and its check box is checked.
\<close>

definition blank_box :: msgbox where
  "blank_box = \<lparr> checked = False, windowTitle = [], textLabel = [], detailedHtml = [],
                 originHtml = [], modal = True, visible = False \<rparr>"

definition fresh_gui :: gui where
  "fresh_gui = \<lparr> qapp = True, MSG_BOX = None, exc_in_flight = (None, None, None),
                 pytango = None, lib = plain_lib, errorpanel_ui = blank_box \<rparr>"

definition muted_gui :: gui where
  "muted_gui = fresh_gui\<lparr>MSG_BOX := Some (blank_box\<lparr>checked := True\<rparr>)\<rparr>"



section \<open>The plugin chain: composite, delegation, faults\<close>

lemma call_events_nonempty: "fst (call p e) \<noteq> []"
  by (subst call.simps) (simp split: prod.splits sum.splits option.splits)

lemma handle_loop_reached:
  "fst (handle_loop ps e) = concat (map (\<lambda>p. fst (call p e)) (reached e ps))"
  by (induction ps)
     (auto simp: reached_def returns_truthy_def split: prod.splits sum.splits)

lemma handle_loop_false:
  "snd (handle_loop ps e) = Inr (PyBool False)
     \<longleftrightarrow> (\<exists>p \<in> set (reached e ps). returns_falsy e p)"
  by (induction ps)
     (auto simp: reached_def returns_truthy_def returns_falsy_def split: prod.splits sum.splits)

lemma handle_loop_true:
  "snd (handle_loop ps e) = Inr (PyBool True) \<longleftrightarrow> (\<forall>p \<in> set ps. returns_truthy e p)"
  by (induction ps) (auto simp: returns_truthy_def split: prod.splits sum.splits)

lemma handle_loop_false_noraise:
  "\<forall>p \<in> set ps. \<not> raises e p \<Longrightarrow>
   snd (handle_loop ps e) = Inr (PyBool False) \<longleftrightarrow> (\<exists>p \<in> set ps. returns_falsy e p)"
  by (induction ps) (auto simp: raises_def returns_falsy_def split: prod.splits sum.splits)

lemma handle_loop_raise:
  "\<forall>q \<in> set pre. returns_truthy e q \<Longrightarrow> snd (call c e) = Inl x \<Longrightarrow>
   handle_loop (pre @ c # post) e
     = (concat (map (\<lambda>q. fst (call q e)) pre) @ fst (call c e), Inl x)"
  by (induction pre) (auto simp: returns_truthy_def split: prod.splits sum.splits)

lemma call_log_child:
  "call log_child sample_error = ([Invoked ''log'', Logged 50], Inr (PyBool True))"
  by code_simp

lemma call_veto_child:
  "call veto_child sample_error = ([Invoked ''veto''], Inr (PyBool False))"
  by code_simp

lemma call_base_child:
  "call base_child sample_error = ([Invoked ''base'', Excepthook], Inr (PyBool True))"
  by code_simp

lemma call_faulty_child:
  "call faulty_child sample_error = ([Invoked ''faulty''], Inl (Exn ''RuntimeError''))"
  by code_simp

text \<open>
  C3. The handle of a multiplex plugin runs its children in list order, up to and including
  the first child that does not return a truthy value, and no child after it: its events are
  those of the reached children, concatenated. It returns \<open>False\<close> exactly when one of the
  reached children returned a falsy value, which, when no child raises, is when some child
  returns a falsy value; it returns \<open>True\<close> exactly when every child returned a truthy value.
\<close>

theorem multiplex_short_circuit:
  "fst (handle (MultiplexExceptionPlugin l ps t) e)
     = concat (map (\<lambda>p. fst (call p e)) (reached e ps))
   \<and> (snd (handle (MultiplexExceptionPlugin l ps t) e) = Inr (PyBool False)
        \<longleftrightarrow> (\<exists>p \<in> set (reached e ps). returns_falsy e p))
   \<and> (snd (handle (MultiplexExceptionPlugin l ps t) e) = Inr (PyBool True)
        \<longleftrightarrow> (\<forall>p \<in> set ps. returns_truthy e p))
   \<and> ((\<forall>p \<in> set ps. \<not> raises e p) \<longrightarrow>
        (snd (handle (MultiplexExceptionPlugin l ps t) e) = Inr (PyBool False)
          \<longleftrightarrow> (\<exists>p \<in> set ps. returns_falsy e p)))"
  using handle_loop_reached [of ps e] handle_loop_false [of ps e] handle_loop_true [of ps e]
    handle_loop_false_noraise [of ps e]
  by simp

theorem multiplex_short_circuit_witness:
  "\<not> raises sample_error log_child \<and> \<not> raises sample_error veto_child
   \<and> \<not> raises sample_error base_child
   \<and> returns_falsy sample_error veto_child
   \<and> snd (handle (MultiplexExceptionPlugin ''m'' [log_child, veto_child, base_child] None)
          sample_error) = Inr (PyBool False)
   \<and> fst (handle (MultiplexExceptionPlugin ''m'' [log_child, veto_child, base_child] None)
          sample_error) = [Invoked ''log'', Logged 50, Invoked ''veto'']"
proof -
  let ?kids = "[log_child, veto_child, base_child]"
  note th = multiplex_short_circuit [of "''m''" ?kids None sample_error]
  have r: "\<not> raises sample_error log_child" "\<not> raises sample_error veto_child"
    "\<not> raises sample_error base_child"
    by code_simp+
  have f: "returns_falsy sample_error veto_child"
    by code_simp
  have t: "returns_truthy sample_error log_child" "\<not> returns_truthy sample_error veto_child"
    by code_simp+
  have rc: "reached sample_error ?kids = [log_child, veto_child]"
    using t by (simp add: reached_def)
  have s: "snd (handle (MultiplexExceptionPlugin ''m'' ?kids None) sample_error)
             = Inr (PyBool False)"
    using th r f by simp
  have e: "fst (handle (MultiplexExceptionPlugin ''m'' ?kids None) sample_error)
             = [Invoked ''log'', Logged 50, Invoked ''veto'']"
    using th
    by (simp only: rc call_log_child call_veto_child list.map concat.simps fst_conv append.simps)
  show ?thesis using r f s e by blast
qed

text \<open>
  C4. A call runs the plugin's own handle first. When handle returns a truthy value and a
  target is set, the target is called on the same triple and the call returns the target's
  result; otherwise the call returns handle's own result and runs nothing after it. In
  particular, when handle returns \<open>False\<close> the call returns \<open>False\<close> and its events are those
  of handle alone.
\<close>

theorem delegating_dispatch:
  "(handle p e = (evs, Inr r) \<and> truthy r \<and> target p = Some t \<longrightarrow>
      call p e = (Invoked (label p) # evs @ fst (call t e), snd (call t e)))
   \<and> (handle p e = (evs, Inr r) \<and> (\<not> truthy r \<or> target p = None) \<longrightarrow>
      call p e = (Invoked (label p) # evs, Inr r))
   \<and> (handle p e = (evs, Inr (PyBool False)) \<longrightarrow>
      call p e = (Invoked (label p) # evs, Inr (PyBool False)))"
  by (subst (1 2 3) call.simps) (auto split: prod.splits option.splits)

theorem delegating_dispatch_witness:
  "call (LogExceptionPlugin ''log'' (Some base_child) 50) sample_error
     = ([Invoked ''log'', Logged 50, Invoked ''base'', Excepthook], Inr (PyBool True))
   \<and> call (SubclassPlugin ''veto'' veto_body (Some base_child)) sample_error
     = ([Invoked ''veto''], Inr (PyBool False))"
  using
    delegating_dispatch [of "LogExceptionPlugin ''log'' (Some base_child) 50" sample_error
      "[Logged 50]" "PyBool True" base_child]
    delegating_dispatch [of "SubclassPlugin ''veto'' veto_body (Some base_child)" sample_error
      "[]" "PyBool False" base_child]
  by (simp add: call_base_child veto_body_def)

text \<open>
  C10. The handle of a multiplex plugin without children returns \<open>True\<close> and runs nothing;
  its call therefore calls the target when one is set and returns the target's result, and
  returns \<open>True\<close> when none is set.
\<close>

theorem empty_multiplex:
  "handle (MultiplexExceptionPlugin l [] t) e = ([], Inr (PyBool True))
   \<and> call (MultiplexExceptionPlugin l [] (Some d)) e
       = (Invoked l # fst (call d e), snd (call d e))
   \<and> call (MultiplexExceptionPlugin l [] None) e = ([Invoked l], Inr (PyBool True))"
  by (subst (1 2) call.simps) (simp split: prod.splits)

text \<open>
  C2, as the code has it. An exception raised in a plugin's handle is not caught: the
  plugin's call raises it and does not call the target; a multiplex whose child raises, the
  children before it having returned truthy values, raises the same exception from its handle
  and runs no later child.
\<close>

theorem fault_propagates:
  "(handle p e = (evs, Inl x) \<longrightarrow> call p e = (Invoked (label p) # evs, Inl x))
   \<and> ((\<forall>q \<in> set pre. returns_truthy e q) \<and> snd (call c e) = Inl x \<longrightarrow>
        handle (MultiplexExceptionPlugin l (pre @ c # post) t) e
          = (concat (map (\<lambda>q. fst (call q e)) pre) @ fst (call c e), Inl x))"
  using handle_loop_raise [of pre e c x post]
  by (subst call.simps) (auto split: prod.splits)

theorem fault_propagates_witness:
  "returns_truthy sample_error log_child
   \<and> call faulty_child sample_error = ([Invoked ''faulty''], Inl (Exn ''RuntimeError''))
   \<and> handle (MultiplexExceptionPlugin ''m'' ([log_child] @ faulty_child # [base_child]) None)
        sample_error
       = ([Invoked ''log'', Logged 50, Invoked ''faulty''], Inl (Exn ''RuntimeError''))"
proof -
  have t: "returns_truthy sample_error log_child"
    by code_simp
  have c: "call faulty_child sample_error = ([Invoked ''faulty''], Inl (Exn ''RuntimeError''))"
    using fault_propagates [of faulty_child sample_error "[]" "Exn ''RuntimeError''"]
    by (simp add: faulty_child_def faulty_body_def)
  have h: "handle (MultiplexExceptionPlugin ''m'' ([log_child] @ faulty_child # [base_child]) None)
             sample_error
           = ([Invoked ''log'', Logged 50, Invoked ''faulty''], Inl (Exn ''RuntimeError''))"
    using fault_propagates [of faulty_child sample_error "[]" "Exn ''RuntimeError''" "[log_child]"
        faulty_child "''m''" "[base_child]" None] t c
    by (simp add: call_log_child)
  show ?thesis using t c h by blast
qed

text \<open>
  The claim C2 fails on this chain: the first child raises, the call of the chain raises the
  same exception instead of returning a boolean, and neither the next child nor the target
  runs.
\<close>

theorem fault_containment_counterexample:
  "call (MultiplexExceptionPlugin ''chain'' [faulty_child, base_child] (Some log_child))
     sample_error
   = ([Invoked ''chain'', Invoked ''faulty''], Inl (Exn ''RuntimeError''))"
  by code_simp


section \<open>The formatter registry: fallback and registration\<close>

lemma find_no_match:
  "\<forall>(k, f) \<in> set d. \<not> issubclass t k \<Longrightarrow>
   findErrorFormatter (d @ rest) (Some t) = findErrorFormatter rest (Some t)"
  by (induction d) auto

lemma KeyError_is_Exception: "issubclass KeyError_cls Exception_cls"
  by code_simp

lemma KeyError_is_LookupError: "issubclass KeyError_cls LookupError_cls"
  by code_simp

lemma KeyError_not_DevFailed: "\<not> issubclass KeyError_cls DevFailed_cls"
  by code_simp

text \<open>
  The loop returns at the first item, in the order in which the dict iterates, whose kind the
  queried kind is a subclass of.
\<close>

lemma find_is_first_match:
  "findErrorFormatter d (Some t)
     = (case find (\<lambda>(k, f). issubclass t k) d of
          None \<Rightarrow> Inr BaseErrorFormatterPlugin
        | Some (k, f) \<Rightarrow> Inr f)"
  by (induction d) auto

text \<open>The assignment of \<open>registerErrorHandler\<close> stores the handler under the kind.\<close>

lemma setitem_stores: "map_of (dict_setitem d k v) k = Some v"
  by (induction d) auto

lemma getErrorFormatters_short: "length (getErrorFormatters imp) \<le> 1"
  by (simp add: getErrorFormatters_def split: option.splits)

lemma lookup_builtin_only:
  "ErrorWidget_findErrorFormatter imp (Some t) = Inr BaseErrorFormatterPlugin
   \<or> ErrorWidget_findErrorFormatter imp (Some t) = Inr TangoErrorFormatterPlugin"
  by (simp add: ErrorWidget_findErrorFormatter_def getErrorFormatters_def split: option.splits)

text \<open>
  C1, on \<open>ErrorWidget\<close>. \<open>registerErrorHandler(KeyError, B)\<close> stores \<open>B\<close> under \<open>KeyError\<close> in the
  dict that its call of \<open>getErrorFormatters\<close> returned, and that dict is kept nowhere. The
  \<open>findErrorFormatter(KeyError)\<close> that follows scans a dict built anew and returns the default
  formatter, not \<open>B\<close>, whether PyTango can be imported or not. Whatever has been registered,
  the lookup returns one of the two formatters of the module.
\<close>

theorem registration_lost:
  "map_of (registerErrorHandler None KeyError_cls (FormatterClass ''B'')) KeyError_cls
     = Some (FormatterClass ''B'')
   \<and> ErrorWidget_findErrorFormatter None (Some KeyError_cls) = Inr BaseErrorFormatterPlugin
   \<and> map_of (registerErrorHandler (Some DevFailed_cls) KeyError_cls (FormatterClass ''B''))
         KeyError_cls
       = Some (FormatterClass ''B'')
   \<and> ErrorWidget_findErrorFormatter (Some DevFailed_cls) (Some KeyError_cls)
       = Inr BaseErrorFormatterPlugin
   \<and> BaseErrorFormatterPlugin \<noteq> FormatterClass ''B''
   \<and> (ErrorWidget_findErrorFormatter imp (Some t) = Inr BaseErrorFormatterPlugin
        \<or> ErrorWidget_findErrorFormatter imp (Some t) = Inr TangoErrorFormatterPlugin)"
  using lookup_builtin_only [of imp t] KeyError_not_DevFailed
  by (simp add: registerErrorHandler_def setitem_stores ErrorWidget_findErrorFormatter_def
        getErrorFormatters_def)

text \<open>
  C5, on \<open>ErrorWidget\<close>. The dict that \<open>findErrorFormatter\<close> scans never holds two kinds: it
  holds at most the entry for \<open>DevFailed\<close>. After \<open>registerErrorHandler(Exception, A)\<close> and
  \<open>registerErrorHandler(LookupError, B)\<close>, both kinds being ancestors of \<open>KeyError\<close>,
  \<open>findErrorFormatter(KeyError)\<close> returns the default formatter, not the formatter \<open>A\<close> that
  was registered first.
\<close>

theorem registration_order_lost:
  "length (getErrorFormatters imp) \<le> 1
   \<and> issubclass KeyError_cls Exception_cls
   \<and> issubclass KeyError_cls LookupError_cls
   \<and> map_of (registerErrorHandler None Exception_cls (FormatterClass ''A'')) Exception_cls
       = Some (FormatterClass ''A'')
   \<and> map_of (registerErrorHandler None LookupError_cls (FormatterClass ''B'')) LookupError_cls
       = Some (FormatterClass ''B'')
   \<and> ErrorWidget_findErrorFormatter None (Some KeyError_cls) = Inr BaseErrorFormatterPlugin
   \<and> BaseErrorFormatterPlugin \<noteq> FormatterClass ''A''"
  using getErrorFormatters_short [of imp] KeyError_is_Exception KeyError_is_LookupError
  by (simp add: registerErrorHandler_def setitem_stores ErrorWidget_findErrorFormatter_def
        getErrorFormatters_def)

text \<open>
  C6. When the queried kind is a subclass of no registered kind, the scan returns
  \<open>BaseErrorFormatterPlugin\<close> and raises nothing. For \<open>ErrorWidget\<close> this is every kind when
  PyTango cannot be imported, and every kind that is not a subclass of \<open>DevFailed\<close> when it
  can.
\<close>

theorem default_fallback:
  "((\<forall>(k, f) \<in> set d. \<not> issubclass t k) \<longrightarrow>
      findErrorFormatter d (Some t) = Inr BaseErrorFormatterPlugin)
   \<and> ErrorWidget_findErrorFormatter None err_type = Inr BaseErrorFormatterPlugin
   \<and> (\<not> issubclass t DevFailed \<longrightarrow>
      ErrorWidget_findErrorFormatter (Some DevFailed) (Some t) = Inr BaseErrorFormatterPlugin)"
  using find_no_match [of d t "[]"]
  by (simp add: ErrorWidget_findErrorFormatter_def getErrorFormatters_def)

theorem default_fallback_witness:
  "\<not> issubclass KeyError_cls DevFailed_cls
   \<and> findErrorFormatter [(DevFailed_cls, TangoErrorFormatterPlugin)] (Some KeyError_cls)
        = Inr BaseErrorFormatterPlugin
   \<and> ErrorWidget_findErrorFormatter (Some DevFailed_cls) (Some KeyError_cls)
        = Inr BaseErrorFormatterPlugin"
  using default_fallback [of "[(DevFailed_cls, TangoErrorFormatterPlugin)]" KeyError_cls "Some KeyError_cls" DevFailed_cls]
    KeyError_not_DevFailed
  by simp


section \<open>The formatters on a null error\<close>

text \<open>
  C7. On \<open>(None, None, None)\<close> the title of the default formatter is "Unhandled Error", and
  when the two functions of the \<open>traceback\<close> module return for these arguments,
  \<open>translateError\<close> returns the four fields without raising: the summary is the text the
  library renders, the detail is that text in a \<open>pre\<close> block, the origin is the rendered trace
  in the page with the style sheet.
\<close>

theorem translate_null:
  "toTitle BaseErrorFormatterPlugin (None, None, None) = Inr ''Unhandled Error''
   \<and> (format_exception_only l None None = Inr a \<and> format_exception l None None None = Inr b \<longrightarrow>
        translateError l BaseErrorFormatterPlugin (None, None, None)
          = Inr (''Unhandled Error'',
                 concat a,
                 ''<html><body><pre>'' @ concat a @ ''</pre></body></html>'',
                 html_orig (style_of l)
                   @ (case pygments l of
                        None \<Rightarrow> pre_block (concat b)
                      | Some hl \<Rightarrow> highlight hl (concat b))
                   @ ''</body></html>''))"
  by (simp add: translateError_def origin_page_def)

theorem translate_null_witness:
  "format_exception_only plain_lib None None = Inr [''None\<newline>'']
   \<and> format_exception plain_lib None None None = Inr [''None\<newline>'']
   \<and> translateError plain_lib BaseErrorFormatterPlugin (None, None, None)
       = Inr (''Unhandled Error'',
              ''None\<newline>'',
              ''<html><body><pre>None\<newline></pre></body></html>'',
              html_orig [] @ ''<pre>None\<newline></pre></body></html>'')"
proof -
  have a: "format_exception_only plain_lib None None = Inr [''None\<newline>'']"
    by (simp add: plain_lib_def plain_format_exception_only_def final_line_def)
  have b: "format_exception plain_lib None None None = Inr [''None\<newline>'']"
    by (simp add: plain_lib_def plain_format_exception_def final_line_def)
  have p: "pygments plain_lib = None"
    by (simp add: plain_lib_def)
  have t: "translateError plain_lib BaseErrorFormatterPlugin (None, None, None)
       = Inr (''Unhandled Error'',
              ''None\<newline>'',
              ''<html><body><pre>None\<newline></pre></body></html>'',
              html_orig [] @ ''<pre>None\<newline></pre></body></html>'')"
    using translate_null [of plain_lib "[''None\<newline>'']" "[''None\<newline>'']"] a b p
    by (simp add: style_of_def pre_block_def)
  show ?thesis using a b t by blast
qed

text \<open>
  C8, as the code has it. With a null value, the default formatter produces its title and,
  when the \<open>traceback\<close> functions return, its summary, detail and origin; the Tango formatter
  produces its title "Tango Error" and the same origin page, but its summary and its detail
  raise an \<open>AttributeError\<close>, since both read \<open>err_value.args\<close>.
\<close>

theorem null_tolerance:
  "toTitle BaseErrorFormatterPlugin (None, None, None) = Inr ''Unhandled Error''
   \<and> toTitle TangoErrorFormatterPlugin (t, None, None) = Inr ''Tango Error''
   \<and> (format_exception_only l t None = Inr a \<longrightarrow>
        toErrorHtml l BaseErrorFormatterPlugin (t, None, None) = Inr (concat a)
        \<and> toDetailedErrorHtml l BaseErrorFormatterPlugin (t, None, None)
            = Inr (''<html><body><pre>'' @ concat a @ ''</pre></body></html>''))
   \<and> (format_exception l t None None = Inr b \<longrightarrow>
        (\<exists>s. toOriginHtml l BaseErrorFormatterPlugin (t, None, None) = Inr s
             \<and> toOriginHtml l TangoErrorFormatterPlugin (t, None, None) = Inr s))
   \<and> toErrorHtml l TangoErrorFormatterPlugin (t, None, tb) = Inl (Exn ''AttributeError'')
   \<and> toDetailedErrorHtml l TangoErrorFormatterPlugin (t, None, tb)
       = Inl (Exn ''AttributeError'')"
  by (simp add: origin_page_def)

theorem null_tolerance_witness:
  "format_exception_only plain_lib None None = Inr [''None\<newline>'']
   \<and> format_exception plain_lib None None None = Inr [''None\<newline>'']
   \<and> toErrorHtml plain_lib BaseErrorFormatterPlugin (None, None, None) = Inr ''None\<newline>''
   \<and> toDetailedErrorHtml plain_lib BaseErrorFormatterPlugin (None, None, None)
       = Inr ''<html><body><pre>None\<newline></pre></body></html>''
   \<and> (\<exists>s. toOriginHtml plain_lib BaseErrorFormatterPlugin (None, None, None) = Inr s
            \<and> toOriginHtml plain_lib TangoErrorFormatterPlugin (None, None, None) = Inr s)"
proof -
  have a: "format_exception_only plain_lib None None = Inr [''None\<newline>'']"
    by (simp add: plain_lib_def plain_format_exception_only_def final_line_def)
  have b: "format_exception plain_lib None None None = Inr [''None\<newline>'']"
    by (simp add: plain_lib_def plain_format_exception_def final_line_def)
  note th = null_tolerance [of None plain_lib "[''None\<newline>'']" "[''None\<newline>'']" None]
  have 1: "toErrorHtml plain_lib BaseErrorFormatterPlugin (None, None, None) = Inr ''None\<newline>''"
    using th a by simp
  have 2: "toDetailedErrorHtml plain_lib BaseErrorFormatterPlugin (None, None, None)
       = Inr ''<html><body><pre>None\<newline></pre></body></html>''"
    using th a by simp
  have 3: "\<exists>s. toOriginHtml plain_lib BaseErrorFormatterPlugin (None, None, None) = Inr s
            \<and> toOriginHtml plain_lib TangoErrorFormatterPlugin (None, None, None) = Inr s"
    using th b by blast
  show ?thesis using a b 1 2 3 by blast
qed

text \<open>
  The claim C8 fails for the Tango formatter on \<open>(None, None, None)\<close>: the summary and the
  detail raise, and so does \<open>translateError\<close>.
\<close>

theorem null_tolerance_counterexample:
  "toErrorHtml plain_lib TangoErrorFormatterPlugin no_error = Inl (Exn ''AttributeError'')
   \<and> toDetailedErrorHtml plain_lib TangoErrorFormatterPlugin no_error
       = Inl (Exn ''AttributeError'')
   \<and> translateError plain_lib TangoErrorFormatterPlugin no_error = Inl (Exn ''AttributeError'')"
  by (simp add: no_error_def translateError_def)



section \<open>The message dialog plugin: terminal actions\<close>

lemma setError_qapp: "ErrorWidget_setError (g\<lparr>qapp := q\<rparr>) box e = ErrorWidget_setError g box e"
  by (simp add: ErrorWidget_setError_def cong: prod.case_cong sum.case_cong)

lemma dialog_setError_qapp:
  "ErrorDialog_setError (g\<lparr>qapp := q\<rparr>) box e = ErrorDialog_setError g box e"
  by (simp add: ErrorDialog_setError_def setError_qapp)

lemma dialog_init_qapp: "ErrorDialog_init (g\<lparr>qapp := q\<rparr>) e = ErrorDialog_init g e"
  by (simp add: ErrorDialog_init_def ErrorWidget_init_def setError_qapp Let_def
        cong: prod.case_cong if_cong)

lemma setError_checked: "ErrorWidget_setError g box e = Inr b' \<Longrightarrow> checked b' = checked box"
  by (auto simp: ErrorWidget_setError_def Let_def split: prod.splits sum.splits)

lemma init_unchecked: "ErrorDialog_init g e = Inr b' \<Longrightarrow> \<not> checked b'"
  by (auto simp: ErrorDialog_init_def ErrorWidget_init_def Let_def
           dest: setError_checked split: prod.splits if_splits)

lemma body_muted:
  assumes r: "rendered g e" and m: "muted g"
  shows "MessageDialog_body g title msg e = ([], Inr PyNone)"
proof -
  let ?g1 = "g\<lparr>qapp := True\<rparr>"
  from m obtain b where b: "MSG_BOX g = Some b" "checked b"
    by (auto simp: muted_def split: option.splits)
  from r b obtain b' where s: "ErrorDialog_setError g b e = Inr b'"
    by (auto simp: rendered_def split: sum.splits)
  have c: "checked b'"
    using s b setError_checked [of g b e b'] by (simp add: ErrorDialog_setError_def)
  have "getMessageBox ?g1 e = Inr (?g1\<lparr>MSG_BOX := Some b'\<rparr>, None)"
    using b s c by (simp add: getMessageBox_def dialog_setError_qapp)
  then show ?thesis
    by (simp add: MessageDialog_body_def MessageDialog_handle_def Application_def)
qed

lemma body_shown:
  assumes r: "rendered g e" and m: "\<not> muted g"
  shows "MessageDialog_body g title msg e = ([DialogShown], Inr (PyBool True))"
proof -
  let ?g1 = "g\<lparr>qapp := True\<rparr>"
  have "\<exists>g2 box. getMessageBox ?g1 e = Inr (g2, Some box)"
  proof (cases "MSG_BOX g")
    case None
    with r obtain b' where s: "ErrorDialog_init g e = Inr b'"
      by (auto simp: rendered_def split: sum.splits)
    then show ?thesis
      using None init_unchecked [of g e b']
      by (simp add: getMessageBox_def dialog_init_qapp Let_def)
  next
    case (Some b)
    with r obtain b' where s: "ErrorDialog_setError g b e = Inr b'"
      by (auto simp: rendered_def split: sum.splits)
    have "\<not> checked b'"
      using s Some m setError_checked [of g b e b']
      by (simp add: ErrorDialog_setError_def muted_def)
    then show ?thesis
      using Some s by (simp add: getMessageBox_def dialog_setError_qapp)
  qed
  then show ?thesis
    by (auto simp: MessageDialog_body_def MessageDialog_handle_def Application_def Let_def)
qed

lemma call_subclass:
  "call (SubclassPlugin l h tgt) e =
     (case h e of
        (evs, Inl x) \<Rightarrow> (Invoked l # evs, Inl x)
      | (evs, Inr r) \<Rightarrow>
          (if truthy r then
             (case tgt of
                Some t \<Rightarrow> (case call t e of (evs', r') \<Rightarrow> (Invoked l # evs @ evs', r'))
              | None \<Rightarrow> (Invoked l # evs, Inr r))
           else (Invoked l # evs, Inr r)))"
  by (subst call.simps) (simp split: prod.splits sum.splits option.splits)

lemma call_base_plain:
  "call (BaseExceptionPlugin l None) e = ([Invoked l, Excepthook], Inr (PyBool True))"
  by (subst call.simps) simp

text \<open>
  C9, as the code has it, for a call of the message dialog plugin whose dialog renders the
  error. When the check box of the shared dialog is checked, handle returns \<open>None\<close>: the dialog
  is not shown and the target is not called, so there is no terminal action. Otherwise the
  dialog is shown once; with no target this is the only action, and with a target the target
  is called as well, so that a \<open>BaseExceptionPlugin\<close> target adds the pass-through to
  \<open>sys.__excepthook__\<close>.
\<close>

theorem dialog_terminal_actions:
  "(rendered g e \<and> muted g \<longrightarrow>
      call (MessageDialogExceptionPlugin g l tgt title msg) e = ([Invoked l], Inr PyNone))
   \<and> (rendered g e \<and> \<not> muted g \<longrightarrow>
      call (MessageDialogExceptionPlugin g l None title msg) e
        = ([Invoked l, DialogShown], Inr (PyBool True))
      \<and> call (MessageDialogExceptionPlugin g l (Some t) title msg) e
        = (Invoked l # DialogShown # fst (call t e), snd (call t e))
      \<and> call (MessageDialogExceptionPlugin g l (Some (BaseExceptionPlugin l' None)) title msg) e
        = ([Invoked l, DialogShown, Invoked l', Excepthook], Inr (PyBool True)))"
proof -
  have a: "call (MessageDialogExceptionPlugin g l tgt title msg) e = ([Invoked l], Inr PyNone)"
    if "rendered g e" "muted g"
    using body_muted [OF that, of title msg]
    by (simp add: MessageDialogExceptionPlugin_def call_subclass)
  have b: "call (MessageDialogExceptionPlugin g l None title msg) e
        = ([Invoked l, DialogShown], Inr (PyBool True))"
    and c: "call (MessageDialogExceptionPlugin g l (Some u) title msg) e
        = (Invoked l # DialogShown # fst (call u e), snd (call u e))"
    if "rendered g e" "\<not> muted g" for u
    using body_shown [OF that, of title msg]
    by (simp_all add: MessageDialogExceptionPlugin_def call_subclass split: prod.splits)
  show ?thesis
    using a b c [of t] c [of "BaseExceptionPlugin l' None"]
    by (simp add: call_base_plain)
qed

theorem dialog_terminal_actions_witness:
  "rendered muted_gui sample_error \<and> muted muted_gui
   \<and> rendered fresh_gui sample_error \<and> \<not> muted fresh_gui
   \<and> terminal_actions
        (fst (call (MessageDialogExceptionPlugin muted_gui ''dialog'' (Some base_child) None None)
               sample_error)) = []
   \<and> terminal_actions
        (fst (call (MessageDialogExceptionPlugin fresh_gui ''dialog'' None None None)
               sample_error)) = [DialogShown]
   \<and> terminal_actions
        (fst (call (MessageDialogExceptionPlugin fresh_gui ''dialog'' (Some base_child) None None)
               sample_error)) = [DialogShown, Excepthook]"
proof -
  have r: "rendered muted_gui sample_error" "muted muted_gui"
    "rendered fresh_gui sample_error" "\<not> muted fresh_gui"
    by code_simp+
  have 1: "call (MessageDialogExceptionPlugin muted_gui ''dialog'' (Some base_child) None None)
               sample_error = ([Invoked ''dialog''], Inr PyNone)"
    using dialog_terminal_actions [of muted_gui sample_error "''dialog''" "Some base_child" None None] r
    by simp
  have 2: "call (MessageDialogExceptionPlugin fresh_gui ''dialog'' None None None) sample_error
             = ([Invoked ''dialog'', DialogShown], Inr (PyBool True))"
    using dialog_terminal_actions [of fresh_gui sample_error "''dialog''" None None None] r
    by simp
  have 3: "call (MessageDialogExceptionPlugin fresh_gui ''dialog'' (Some base_child) None None)
             sample_error
             = ([Invoked ''dialog'', DialogShown, Invoked ''base'', Excepthook], Inr (PyBool True))"
    using dialog_terminal_actions [of fresh_gui sample_error "''dialog''" None None None
        base_child "''base''"] r
    by (simp add: base_child_def call_base_plain)
  show ?thesis using r by (simp add: 1 2 3 terminal_actions_def)
qed

text \<open>
  The claim C9 fails both ways: with the check box checked an error dispatched to the plugin
  yields no terminal action, and with a fresh dialog and a \<open>BaseExceptionPlugin\<close> target it
  yields two, the dialog and the raw trace.
\<close>

theorem one_terminal_action_counterexample:
  "terminal_actions
     (fst (call (MessageDialogExceptionPlugin muted_gui ''dialog'' (Some base_child) None None)
            sample_error)) = []
   \<and> terminal_actions
     (fst (call (MessageDialogExceptionPlugin fresh_gui ''dialog'' (Some base_child) None None)
            sample_error)) = [DialogShown, Excepthook]"
  by code_simp

end
